theory Spec2Isabelle
  imports Main "HOL-Library.Sublist"
begin

section \<open>The StoryGenerator component\<close>

text \<open>
  The source is one React component, \<^verbatim>\<open>StoryGenerator\<close>
  (\<^verbatim>\<open>src/app/quests/components/StoryGenerator/index.tsx\<close>). Its two event
  handlers, \<^verbatim>\<open>handleGenerateStory\<close> and \<^verbatim>\<open>handleClearStory\<close>, and the derived
  list \<^verbatim>\<open>activeTasks\<close> are embedded here. A handler is a function from the state it
  starts in to the state it leaves; every call of a state setter, of the store, of
  \<^verbatim>\<open>fetch\<close> and of the console is also appended, in program order, to a trace, so that
  statements about what was called, and in which order, can be made.
\<close>

subsection \<open>JavaScript values\<close>

text \<open>
  What \<^verbatim>\<open>response.json()\<close> yields: a parsed JSON value. The type of numbers is a
  parameter, since the handlers never compute with one. An object is the list of its own
  properties.
\<close>

datatype 'n json =
    JNull
  | JBool bool
  | JNum 'n
  | JStr string
  | JArr "'n json list"
  | JObj "(string \<times> 'n json) list"

text \<open>
  What a \<^verbatim>\<open>catch\<close> clause can receive: an instance of \<^verbatim>\<open>Error\<close> (or of a subclass
  such as \<^verbatim>\<open>TypeError\<close> or \<^verbatim>\<open>SyntaxError\<close>) with its \<^verbatim>\<open>message\<close>, or any other
  value.
\<close>

datatype 'n thrown =
    ErrorInstance string
  | NonError "'n json"

subsection \<open>The store's data\<close>

text \<open>
  Modelled from the spec: the types \<^verbatim>\<open>Task\<close> and \<^verbatim>\<open>Settings\<close> are declared in the
  store module \<^verbatim>\<open>@/store/story\<close>, which is not among the sources. A task is an item
  with at least a \<^verbatim>\<open>status\<close> attribute; the settings have at least the fields
  \<^verbatim>\<open>universe\<close>, \<^verbatim>\<open>character\<close> and \<^verbatim>\<open>narrativeStyle\<close>, each a text that can be
  missing (\<open>None\<close>) or empty. Both are record schemes: whatever other fields they
  have is the extension \<open>'t\<close>, \<open>'s\<close>.
\<close>

record task =
  status :: string

record settings =
  universe :: "string option"
  character :: "string option"
  narrativeStyle :: "string option"

subsection \<open>The request and its outcome\<close>

text \<open>
  The argument of \<^verbatim>\<open>fetch\<close>. The body is kept as the object handed to
  \<^verbatim>\<open>JSON.stringify\<close>: \<^verbatim>\<open>{ tasks: activeTasks, settings, model: aiModel }\<close>.
\<close>

record ('t, 's) request_body =
  body_tasks :: "'t task_scheme list"
  body_settings :: "'s settings_scheme"
  body_model :: string

record ('t, 's) request =
  url :: string
  http_method :: string
  headers :: "(string \<times> string) list"
  body :: "('t, 's) request_body"

text \<open>
  A response is read twice by the handler: its \<^verbatim>\<open>ok\<close> flag, and the outcome of
  \<^verbatim>\<open>await response.json()\<close>, which is the parsed body or a thrown value. The promise
  returned by \<^verbatim>\<open>fetch\<close> is rejected or resolved with a response.
\<close>

record 'n response =
  ok :: bool
  json_result :: "'n thrown + 'n json"

datatype 'n fetch_outcome =
    Rejects "'n thrown"
  | Resolves "'n response"

subsection \<open>Effects and state\<close>

datatype ('t, 's, 'n) effect =
    SetIsGenerating bool
  | SetError "string option"
  | SetShowStory bool
  | StoreSetStory "'n json"
  | StoreClearStory
  | Fetch "('t, 's) request"
  | ConsoleLog "'n json"
  | ConsoleError "'n thrown"

text \<open>
  The state a handler sees: what \<^verbatim>\<open>useStoryStore()\<close> returns (\<open>tasks\<close>,
  \<open>settings\<close>, \<open>aiModel\<close>, \<open>story\<close>), the three \<^verbatim>\<open>useState\<close> cells
  (\<open>isGenerating\<close>, \<open>error\<close> with \<open>None\<close> for \<^verbatim>\<open>null\<close>, \<open>showStory\<close>), and the
  trace of effects so far.
\<close>

record ('t, 's, 'n) world =
  tasks :: "'t task_scheme list"
  settings :: "'s settings_scheme"
  aiModel :: string
  story :: "'n json option"
  isGenerating :: bool
  error :: "string option"
  showStory :: bool
  trace :: "('t, 's, 'n) effect list"

text \<open>
  The JavaScript host: \<^verbatim>\<open>fetch\<close> gives each request its outcome;
  \<open>numberIsFalsy\<close> holds of the numbers \<^verbatim>\<open>0\<close>, \<^verbatim>\<open>-0\<close> and \<^verbatim>\<open>NaN\<close>;
  \<open>hostToString\<close> is the conversion to a string of a value that is not a string (it
  can throw); \<open>nullReadMessage\<close> is the message of the \<^verbatim>\<open>TypeError\<close> raised when a
  property of \<^verbatim>\<open>null\<close> is read, a text that differs between engines.
\<close>

record ('t, 's, 'n) host =
  fetch :: "('t, 's) request \<Rightarrow> 'n fetch_outcome"
  numberIsFalsy :: "'n \<Rightarrow> bool"
  hostToString :: "'n json \<Rightarrow> 'n thrown + string"
  nullReadMessage :: string

subsection \<open>State setters\<close>

definition logEffect :: "('t, 's, 'n) effect \<Rightarrow> ('t, 's, 'n) world \<Rightarrow> ('t, 's, 'n) world" where
  "logEffect e w = w\<lparr>trace := trace w @ [e]\<rparr>"

definition setIsGenerating :: "bool \<Rightarrow> ('t, 's, 'n) world \<Rightarrow> ('t, 's, 'n) world" where
  "setIsGenerating b w = logEffect (SetIsGenerating b) (w\<lparr>isGenerating := b\<rparr>)"

definition setError :: "string option \<Rightarrow> ('t, 's, 'n) world \<Rightarrow> ('t, 's, 'n) world" where
  "setError m w = logEffect (SetError m) (w\<lparr>error := m\<rparr>)"

definition setShowStory :: "bool \<Rightarrow> ('t, 's, 'n) world \<Rightarrow> ('t, 's, 'n) world" where
  "setShowStory b w = logEffect (SetShowStory b) (w\<lparr>showStory := b\<rparr>)"

text \<open>
  Modelled from the spec: the store's \<^verbatim>\<open>setStory\<close> and \<^verbatim>\<open>clearStory\<close> are
  implemented in \<^verbatim>\<open>@/store/story\<close>, which is not among the sources. By the spec,
  \<^verbatim>\<open>setStory(Story)\<close> replaces the persisted story and \<^verbatim>\<open>clearStory()\<close> deletes
  it.
\<close>

definition setStory :: "'n json \<Rightarrow> ('t, 's, 'n) world \<Rightarrow> ('t, 's, 'n) world" where
  "setStory s w = logEffect (StoreSetStory s) (w\<lparr>story := Some s\<rparr>)"

definition clearStory :: "('t, 's, 'n) world \<Rightarrow> ('t, 's, 'n) world" where
  "clearStory w = logEffect StoreClearStory (w\<lparr>story := None\<rparr>)"

definition consoleLog :: "'n json \<Rightarrow> ('t, 's, 'n) world \<Rightarrow> ('t, 's, 'n) world" where
  "consoleLog v w = logEffect (ConsoleLog v) w"

definition consoleError :: "'n thrown \<Rightarrow> ('t, 's, 'n) world \<Rightarrow> ('t, 's, 'n) world" where
  "consoleError e w = logEffect (ConsoleError e) w"

subsection \<open>Pieces of JavaScript semantics the handler relies on\<close>

text \<open>\<^verbatim>\<open>!x\<close> on a text that may be missing: true of \<^verbatim>\<open>undefined\<close> and of \<^verbatim>\<open>""\<close>.\<close>

fun truthyText :: "string option \<Rightarrow> bool" where
  "truthyText None = False"
| "truthyText (Some s) = (s \<noteq> [])"

text \<open>Truthiness of a parsed value, as \<^verbatim>\<open>||\<close> decides it.\<close>

fun truthy :: "('t, 's, 'n) host \<Rightarrow> 'n json \<Rightarrow> bool" where
  "truthy h JNull = False"
| "truthy h (JBool b) = b"
| "truthy h (JNum n) = (\<not> numberIsFalsy h n)"
| "truthy h (JStr s) = (s \<noteq> [])"
| "truthy h (JArr xs) = True"
| "truthy h (JObj kvs) = True"

text \<open>
  \<^verbatim>\<open>v.k\<close> on a parsed value: a \<^verbatim>\<open>TypeError\<close> on \<^verbatim>\<open>null\<close>, the own property of an
  object, and \<^verbatim>\<open>undefined\<close> (\<open>None\<close>) otherwise (no prototype of a parsed value has a
  property \<^verbatim>\<open>error\<close>, the one key the handler reads).
\<close>

fun getProp :: "('t, 's, 'n) host \<Rightarrow> 'n json \<Rightarrow> string \<Rightarrow> 'n thrown + 'n json option" where
  "getProp h JNull k = Inl (ErrorInstance (nullReadMessage h))"
| "getProp h (JObj kvs) k = Inr (map_of kvs k)"
| "getProp h v k = Inr None"

text \<open>\<^verbatim>\<open>x || 'Failed to generate story'\<close>, with \<open>x\<close> possibly \<^verbatim>\<open>undefined\<close>.\<close>

definition genericFailure :: string where
  "genericFailure = ''Failed to generate story''"

fun orFallback :: "('t, 's, 'n) host \<Rightarrow> 'n json option \<Rightarrow> 'n json" where
  "orFallback h None = JStr genericFailure"
| "orFallback h (Some v) = (if truthy h v then v else JStr genericFailure)"

text \<open>
  \<^verbatim>\<open>new Error(v)\<close>: the message is \<open>v\<close> converted to a string; the conversion of a
  value that is not a string is the host's and can throw.
\<close>

fun newError :: "('t, 's, 'n) host \<Rightarrow> 'n json \<Rightarrow> 'n thrown + 'n thrown" where
  "newError h (JStr s) = Inr (ErrorInstance s)"
| "newError h v = (case hostToString h v of Inl e \<Rightarrow> Inl e | Inr s \<Rightarrow> Inr (ErrorInstance s))"

subsection \<open>The component\<close>

text \<open>\<^verbatim>\<open>tasks.filter(task => task.status === 'active')\<close>\<close>

definition activeTasks :: "'t task_scheme list \<Rightarrow> 't task_scheme list" where
  "activeTasks ts = filter (\<lambda>task. status task = ''active'') ts"

text \<open>The first argument of \<^verbatim>\<open>fetch\<close> and its options, built from the values the handler closes over.\<close>

definition generateRequest :: "('t, 's, 'n) world \<Rightarrow> ('t, 's) request" where
  "generateRequest w =
     \<lparr>url = ''/api/generate'',
      http_method = ''POST'',
      headers = [(''Content-Type'', ''application/json'')],
      body = \<lparr>body_tasks = activeTasks (tasks w), body_settings = settings w, body_model = aiModel w\<rparr>\<rparr>"

text \<open>
  Lines 36 to 51: the part of the \<^verbatim>\<open>try\<close> block that awaits the host. It yields the
  parsed story, or raises (\<open>Inl\<close>): the rejection of \<^verbatim>\<open>fetch\<close>, what
  \<^verbatim>\<open>response.json()\<close> throws, the \<^verbatim>\<open>TypeError\<close> of reading \<^verbatim>\<open>errorData.error\<close>,
  what the construction of the error throws, or the constructed error itself.
\<close>

definition awaitStory :: "('t, 's, 'n) host \<Rightarrow> ('t, 's) request \<Rightarrow> 'n thrown + 'n json" where
  "awaitStory h req =
     (case fetch h req of
        Rejects e \<Rightarrow> Inl e
      | Resolves response \<Rightarrow>
          if \<not> ok response then
            (case json_result response of
               Inl e \<Rightarrow> Inl e
             | Inr errorData \<Rightarrow>
                 (case getProp h errorData ''error'' of
                    Inl e \<Rightarrow> Inl e
                  | Inr p \<Rightarrow>
                      (case newError h (orFallback h p) of
                         Inl e \<Rightarrow> Inl e
                       | Inr err \<Rightarrow> Inl err)))
          else json_result response)"

text \<open>
  The \<^verbatim>\<open>try\<close> block: it ends normally in a new state, or raises a value in the state
  reached so far.
\<close>

definition tryBlock ::
  "('t, 's, 'n) host \<Rightarrow> ('t, 's, 'n) world \<Rightarrow> ('n thrown \<times> ('t, 's, 'n) world) + ('t, 's, 'n) world" where
  "tryBlock h w =
     (let req = generateRequest w;
          w1 = logEffect (Fetch req) w
      in case awaitStory h req of
           Inl e \<Rightarrow> Inl (e, w1)
         | Inr s \<Rightarrow> Inr (setShowStory True (setStory s (consoleLog s w1))))"

text \<open>The \<^verbatim>\<open>catch\<close> block.\<close>

fun errorText :: "'n thrown \<Rightarrow> string" where
  "errorText (ErrorInstance m) = m"
| "errorText (NonError v) = genericFailure"

definition catchBlock :: "'n thrown \<Rightarrow> ('t, 's, 'n) world \<Rightarrow> ('t, 's, 'n) world" where
  "catchBlock err w = setError (Some (errorText err)) (consoleError err w)"

definition handleGenerateStory ::
  "('t, 's, 'n) host \<Rightarrow> ('t, 's, 'n) world \<Rightarrow> ('t, 's, 'n) world" where
  "handleGenerateStory h w =
     (if length (activeTasks (tasks w)) = 0 then
        setError (Some ''No active tasks to generate story from'') w
      else if \<not> truthyText (universe (settings w)) \<or> \<not> truthyText (character (settings w))
              \<or> \<not> truthyText (narrativeStyle (settings w)) then
        setError (Some ''Please configure your story settings first'') w
      else
        let w1 = setError None (setIsGenerating True w);
            w2 = (case tryBlock h w1 of
                    Inr w' \<Rightarrow> w'
                  | Inl (err, w') \<Rightarrow> catchBlock err w')
        in setIsGenerating False w2)"

definition handleClearStory :: "('t, 's, 'n) world \<Rightarrow> ('t, 's, 'n) world" where
  "handleClearStory w = setShowStory False (clearStory w)"

text \<open>
  The two guards at the head of \<^verbatim>\<open>handleGenerateStory\<close> (lines 22 and 27), negated:
  the invocation goes on to the request.
\<close>

definition passesValidation :: "('t, 's, 'n) world \<Rightarrow> bool" where
  "passesValidation w \<longleftrightarrow>
     length (activeTasks (tasks w)) \<noteq> 0 \<and> truthyText (universe (settings w))
     \<and> truthyText (character (settings w)) \<and> truthyText (narrativeStyle (settings w))"

text \<open>
  The value of the \<^verbatim>\<open>isGenerating\<close> cell after a sequence of effects, from the value
  it had before: only \<^verbatim>\<open>setIsGenerating\<close> writes it.
\<close>

fun flagAfter :: "bool \<Rightarrow> ('t, 's, 'n) effect list \<Rightarrow> bool" where
  "flagAfter b [] = b"
| "flagAfter b (SetIsGenerating c # es) = flagAfter c es"
| "flagAfter b (e # es) = flagAfter b es"

subsection \<open>Concrete inputs\<close>

text \<open>
  The scenarios of the spec's section 8, used to evaluate the handlers: a store with two
  active tasks among three and complete settings, one with no active task and no
  settings, one with an active task and no character, the story of the success scenario,
  and a host whose \<^verbatim>\<open>fetch\<close> has a fixed outcome, whose numbers are the integers and
  whose conversion to a string is given below.
\<close>

definition demoSettings :: settings where
  "demoSettings = \<lparr>universe = Some ''Solo Leveling'', character = Some ''Hunter'',
                    narrativeStyle = Some ''epic''\<rparr>"

definition demoWorld :: "(unit, unit, int) world" where
  "demoWorld =
     \<lparr>tasks = [\<lparr>status = ''active''\<rparr>, \<lparr>status = ''completed''\<rparr>, \<lparr>status = ''active''\<rparr>],
      settings = demoSettings, aiModel = ''gpt-4'', story = None,
      isGenerating = False, error = None, showStory = False, trace = []\<rparr>"

definition idleWorld :: "(unit, unit, int) world" where
  "idleWorld =
     \<lparr>tasks = [\<lparr>status = ''completed''\<rparr>],
      settings = \<lparr>universe = None, character = Some [], narrativeStyle = None\<rparr>,
      aiModel = ''gpt-4'', story = None,
      isGenerating = False, error = None, showStory = False, trace = []\<rparr>"

definition noCharacterWorld :: "(unit, unit, int) world" where
  "noCharacterWorld =
     \<lparr>tasks = [\<lparr>status = ''active''\<rparr>],
      settings = \<lparr>universe = Some ''Solo Leveling'', character = None,
                  narrativeStyle = Some ''epic''\<rparr>,
      aiModel = ''gpt-4'', story = None,
      isGenerating = False, error = None, showStory = False, trace = []\<rparr>"

definition demoStory :: "int json" where
  "demoStory =
     JObj [(''title'', JStr ''T''), (''openingScene'', JStr ''O''),
           (''transformedTasks'',
              JArr [JObj [(''questName'', JStr ''Q1''), (''narrative'', JStr ''N1''),
                          (''completion'', JStr ''C1'')],
                    JObj [(''questName'', JStr ''Q2''), (''narrative'', JStr ''N2''),
                          (''completion'', JStr ''C2'')]]),
           (''epilogue'', JStr ''E'')]"

text \<open>
  The conversion of a parsed value to a string (\<^verbatim>\<open>String(v)\<close>, as \<^verbatim>\<open>new Error(v)\<close>
  applies it). A primitive has its literal text. An array is joined with commas
  (\<^verbatim>\<open>Array.prototype.join\<close>), a \<^verbatim>\<open>null\<close> element giving the empty text and the first
  element whose conversion throws ending the conversion; so \<^verbatim>\<open>String([])\<close> is
  \<^verbatim>\<open>""\<close>. An object is \<^verbatim>\<open>"[object Object]"\<close>, unless it has an own property
  \<^verbatim>\<open>toString\<close>: that property of a parsed value is not callable, \<^verbatim>\<open>valueOf\<close>
  gives no primitive, and the conversion throws a \<^verbatim>\<open>TypeError\<close>. The text of a number
  and the message of that \<^verbatim>\<open>TypeError\<close> are parameters.
\<close>

fun joinWith :: "string \<Rightarrow> string list \<Rightarrow> string" where
  "joinWith sep [] = []"
| "joinWith sep [x] = x"
| "joinWith sep (x # y # ys) = x @ sep @ joinWith sep (y # ys)"

fun firstThrown :: "('e + 'a) list \<Rightarrow> 'e + 'a list" where
  "firstThrown [] = Inr []"
| "firstThrown (Inl e # rs) = Inl e"
| "firstThrown (Inr x # rs) = (case firstThrown rs of Inl e \<Rightarrow> Inl e | Inr xs \<Rightarrow> Inr (x # xs))"

fun jsToString :: "('n \<Rightarrow> string) \<Rightarrow> string \<Rightarrow> 'n json \<Rightarrow> 'n thrown + string" where
  "jsToString numberText notPrimitive JNull = Inr ''null''"
| "jsToString numberText notPrimitive (JBool b) = Inr (if b then ''true'' else ''false'')"
| "jsToString numberText notPrimitive (JNum n) = Inr (numberText n)"
| "jsToString numberText notPrimitive (JStr s) = Inr s"
| "jsToString numberText notPrimitive (JArr xs) =
     (case firstThrown
             (map (\<lambda>v. case v of JNull \<Rightarrow> Inr [] | _ \<Rightarrow> jsToString numberText notPrimitive v) xs) of
        Inl e \<Rightarrow> Inl e
      | Inr parts \<Rightarrow> Inr (joinWith '','' parts))"
| "jsToString numberText notPrimitive (JObj kvs) =
     (if map_of kvs ''toString'' \<noteq> None then Inl (ErrorInstance notPrimitive)
      else Inr ''[object Object]'')"

text \<open>
  The decimal text of an integer, which is how JavaScript writes a whole number below
  \<open>10\<^sup>2\<^sup>1\<close> in magnitude.
\<close>

function natText :: "nat \<Rightarrow> string" where
  "natText n = (if n < 10 then [''0123456789'' ! n]
                else natText (n div 10) @ [''0123456789'' ! (n mod 10)])"
  by pat_completeness auto
termination
  by (relation "measure (\<lambda>n. n)") auto

declare natText.simps [simp del]

definition intText :: "int \<Rightarrow> string" where
  "intText i = (if i < 0 then CHR ''-'' # natText (nat (- i)) else natText (nat i))"

definition hostAnswering :: "int fetch_outcome \<Rightarrow> (unit, unit, int) host" where
  "hostAnswering outcome =
     \<lparr>fetch = (\<lambda>req. outcome), numberIsFalsy = (\<lambda>n. n = 0),
      hostToString = jsToString intText ''Cannot convert object to primitive value'',
      nullReadMessage = ''errorData is null''\<rparr>"

section \<open>Shared lemmas\<close>

lemmas setter_defs =
  logEffect_def setIsGenerating_def setError_def setShowStory_def setStory_def clearStory_def
  consoleLog_def consoleError_def

lemmas demo_defs =
  demoSettings_def demoWorld_def idleWorld_def noCharacterWorld_def demoStory_def
  hostAnswering_def

lemma generateRequest_frame [simp]:
  "generateRequest (w\<lparr>isGenerating := b\<rparr>) = generateRequest w"
  "generateRequest (w\<lparr>error := m\<rparr>) = generateRequest w"
  "generateRequest (w\<lparr>trace := es\<rparr>) = generateRequest w"
  by (simp_all add: generateRequest_def)

text \<open>The three ways through \<^verbatim>\<open>handleGenerateStory\<close>, each as one state update.\<close>

lemma handle_refused:
  assumes "\<not> passesValidation w"
  shows "handleGenerateStory h w =
           (let m = (if length (activeTasks (tasks w)) = 0
                     then ''No active tasks to generate story from''
                     else ''Please configure your story settings first'')
            in w\<lparr>error := Some m, trace := trace w @ [SetError (Some m)]\<rparr>)"
  using assms by (auto simp add: handleGenerateStory_def passesValidation_def setter_defs Let_def)

lemma handle_raised:
  assumes "passesValidation w" and "awaitStory h (generateRequest w) = Inl e"
  shows "handleGenerateStory h w =
           w\<lparr>isGenerating := False, error := Some (errorText e),
             trace := trace w @ [SetIsGenerating True, SetError None, Fetch (generateRequest w),
                                 ConsoleError e, SetError (Some (errorText e)), SetIsGenerating False]\<rparr>"
  using assms
  by (simp add: handleGenerateStory_def passesValidation_def tryBlock_def catchBlock_def
      setter_defs Let_def)

lemma handle_returned:
  assumes "passesValidation w" and "awaitStory h (generateRequest w) = Inr s"
  shows "handleGenerateStory h w =
           w\<lparr>story := Some s, isGenerating := False, error := None, showStory := True,
             trace := trace w @ [SetIsGenerating True, SetError None, Fetch (generateRequest w),
                                 ConsoleLog s, StoreSetStory s, SetShowStory True,
                                 SetIsGenerating False]\<rparr>"
  using assms
  by (simp add: handleGenerateStory_def passesValidation_def tryBlock_def catchBlock_def
      setter_defs Let_def)

text \<open>What the awaited part raises or yields, by the outcome of \<^verbatim>\<open>fetch\<close>.\<close>

lemma await_rejected:
  "fetch h req = Rejects e \<Longrightarrow> awaitStory h req = Inl e"
  by (simp add: awaitStory_def)

lemma await_unparsed:
  "fetch h req = Resolves r \<Longrightarrow> json_result r = Inl e \<Longrightarrow> awaitStory h req = Inl e"
  by (simp add: awaitStory_def)

lemma await_parsed_ok:
  "fetch h req = Resolves r \<Longrightarrow> ok r \<Longrightarrow> json_result r = Inr s \<Longrightarrow> awaitStory h req = Inr s"
  by (simp add: awaitStory_def)

lemma await_not_ok_raises:
  "fetch h req = Resolves r \<Longrightarrow> \<not> ok r \<Longrightarrow> \<exists>e. awaitStory h req = Inl e"
  by (simp add: awaitStory_def split: sum.splits)

lemma await_failure_raises:
  assumes "(\<exists>e. fetch h req = Rejects e)
           \<or> (\<exists>r. fetch h req = Resolves r \<and> (\<not> ok r \<or> isl (json_result r)))"
  shows "\<exists>e. awaitStory h req = Inl e"
  using assms await_rejected await_not_ok_raises await_unparsed
  by (metis isl_def)

lemma await_embedded_text:
  assumes "fetch h req = Resolves r" and "\<not> ok r" and "json_result r = Inr errorData"
    and "getProp h errorData ''error'' = Inr (Some (JStr s))" and "s \<noteq> []"
  shows "awaitStory h req = Inl (ErrorInstance s)"
  using assms by (simp add: awaitStory_def)

lemma await_no_embedded_text:
  assumes "fetch h req = Resolves r" and "\<not> ok r" and "json_result r = Inr errorData"
    and "getProp h errorData ''error'' = Inr p"
    and "p = None \<or> (\<exists>v. p = Some v \<and> \<not> truthy h v)"
  shows "awaitStory h req = Inl (ErrorInstance genericFailure)"
  using assms by (auto simp add: awaitStory_def)

lemma errorText_nonempty:
  "errorText e = [] \<Longrightarrow> e = ErrorInstance []"
  by (cases e) (simp_all add: genericFailure_def)

lemma flagAfter_other:
  "\<forall>c. e \<noteq> SetIsGenerating c \<Longrightarrow> flagAfter b (e # es) = flagAfter b es"
  by (cases e) (simp_all, metis)

lemma flagAfter_tail:
  assumes "\<forall>e \<in> set mid. \<forall>c. e \<noteq> SetIsGenerating c"
  shows "flagAfter b (take k (mid @ [SetIsGenerating False])) = (if k \<le> length mid then b else False)"
  using assms
proof (induction mid arbitrary: k)
  case Nil
  then show ?case by (cases k) simp_all
next
  case (Cons e mid)
  show ?case
  proof (cases k)
    case 0
    then show ?thesis by simp
  next
    case (Suc j)
    from Cons.prems have other: "\<forall>c. e \<noteq> SetIsGenerating c"
      and rest: "\<forall>e \<in> set mid. \<forall>c. e \<noteq> SetIsGenerating c"
      by simp_all
    have "flagAfter b (take k ((e # mid) @ [SetIsGenerating False]))
          = flagAfter b (e # take j (mid @ [SetIsGenerating False]))"
      using Suc by simp
    also have "\<dots> = flagAfter b (take j (mid @ [SetIsGenerating False]))"
      using other by (rule flagAfter_other)
    also have "\<dots> = (if j \<le> length mid then b else False)"
      using rest by (rule Cons.IH)
    finally show ?thesis using Suc by simp
  qed
qed

lemma flagAfter_bracket:
  assumes "\<forall>e \<in> set mid. \<forall>c. e \<noteq> SetIsGenerating c"
  shows "flagAfter b (take k (SetIsGenerating True # mid @ [SetIsGenerating False]))
         = (if k = 0 then b else k < length mid + 2)"
proof (cases k)
  case 0
  then show ?thesis by simp
next
  case (Suc j)
  with flagAfter_tail [OF assms, of True j] show ?thesis by auto
qed

section \<open>Validation\<close>

text \<open>
  Claim C1, as stated: the settings check runs before the task-count check, so that an
  invocation with an empty settings field gets the message "Please configure your story
  settings first" even when no task is active. The source tests the task count first
  (line 22, then line 27): with no active task and no settings the message is "No active
  tasks to generate story from".
\<close>

theorem settings_first_counterexample:
  "length (activeTasks (tasks idleWorld)) = 0
   \<and> \<not> truthyText (universe (settings idleWorld))
   \<and> error (handleGenerateStory (hostAnswering (Rejects (ErrorInstance ''offline''))) idleWorld)
       = Some ''No active tasks to generate story from''
   \<and> error (handleGenerateStory (hostAnswering (Rejects (ErrorInstance ''offline''))) idleWorld)
       \<noteq> Some ''Please configure your story settings first''"
  by (simp add: handleGenerateStory_def activeTasks_def setter_defs demo_defs)

text \<open>
  Claim C1, amended: the task-count check runs before the settings check, and the first
  failure decides. With no active task the error message is "No active tasks to generate
  story from", whatever the settings; with at least one active task and one of
  \<^verbatim>\<open>universe\<close>, \<^verbatim>\<open>character\<close>, \<^verbatim>\<open>narrativeStyle\<close> missing or empty it is "Please
  configure your story settings first".
\<close>

theorem validation_order:
  "(length (activeTasks (tasks w)) = 0 \<longrightarrow>
      error (handleGenerateStory h w) = Some ''No active tasks to generate story from'')
   \<and> (length (activeTasks (tasks w)) \<noteq> 0
        \<and> (\<not> truthyText (universe (settings w)) \<or> \<not> truthyText (character (settings w))
             \<or> \<not> truthyText (narrativeStyle (settings w))) \<longrightarrow>
      error (handleGenerateStory h w) = Some ''Please configure your story settings first'')"
  by (simp add: handleGenerateStory_def setter_defs)

theorem validation_order_witness:
  "length (activeTasks (tasks idleWorld)) = 0
   \<and> error (handleGenerateStory (hostAnswering (Resolves \<lparr>ok = True, json_result = Inr demoStory\<rparr>)) idleWorld)
       = Some ''No active tasks to generate story from''
   \<and> length (activeTasks (tasks noCharacterWorld)) \<noteq> 0
   \<and> \<not> truthyText (character (settings noCharacterWorld))
   \<and> error (handleGenerateStory (hostAnswering (Resolves \<lparr>ok = True, json_result = Inr demoStory\<rparr>)) noCharacterWorld)
       = Some ''Please configure your story settings first''"
proof -
  let ?h = "hostAnswering (Resolves \<lparr>ok = True, json_result = Inr demoStory\<rparr>)"
  have idle: "length (activeTasks (tasks idleWorld)) = 0"
    by (simp add: activeTasks_def idleWorld_def)
  have quests: "length (activeTasks (tasks noCharacterWorld)) \<noteq> 0"
    by (simp add: activeTasks_def noCharacterWorld_def)
  have nobody: "\<not> truthyText (character (settings noCharacterWorld))"
    by (simp add: noCharacterWorld_def)
  from idle validation_order [of idleWorld ?h]
  have first: "error (handleGenerateStory ?h idleWorld)
               = Some ''No active tasks to generate story from''"
    by blast
  from quests nobody validation_order [of noCharacterWorld ?h]
  have second: "error (handleGenerateStory ?h noCharacterWorld)
                = Some ''Please configure your story settings first''"
    by blast
  from idle quests nobody first second show ?thesis by blast
qed

text \<open>
  Claim C5: an invocation refused by validation (no active task, or a settings field
  missing or empty) issues no request and changes nothing but the error message: the
  state it leaves is the state it started in with the error set, and the one effect is
  that call of \<^verbatim>\<open>setError\<close> (so no \<^verbatim>\<open>fetch\<close> and no \<^verbatim>\<open>setIsGenerating\<close>); the loading flag, the persisted story and the
  display-expanded flag are as before.
\<close>

theorem refusal_only_sets_error:
  assumes "\<not> passesValidation w"
  shows "\<exists>m. handleGenerateStory h w = w\<lparr>error := Some m, trace := trace w @ [SetError (Some m)]\<rparr>
             \<and> trace (handleGenerateStory h w) = trace w @ [SetError (Some m)]
             \<and> isGenerating (handleGenerateStory h w) = isGenerating w
             \<and> story (handleGenerateStory h w) = story w
             \<and> showStory (handleGenerateStory h w) = showStory w"
proof -
  let ?m = "if length (activeTasks (tasks w)) = 0
            then ''No active tasks to generate story from''
            else ''Please configure your story settings first''"
  from handle_refused [OF assms, of h]
  have step: "handleGenerateStory h w = w\<lparr>error := Some ?m, trace := trace w @ [SetError (Some ?m)]\<rparr>"
    by (simp only: Let_def)
  have "handleGenerateStory h w = w\<lparr>error := Some ?m, trace := trace w @ [SetError (Some ?m)]\<rparr>
        \<and> trace (handleGenerateStory h w) = trace w @ [SetError (Some ?m)]
        \<and> isGenerating (handleGenerateStory h w) = isGenerating w
        \<and> story (handleGenerateStory h w) = story w
        \<and> showStory (handleGenerateStory h w) = showStory w"
    by (simp only: step) simp
  then show ?thesis by (rule exI)
qed

theorem refusal_only_sets_error_witness:
  "\<not> passesValidation noCharacterWorld
   \<and> (\<exists>m. handleGenerateStory (hostAnswering (Resolves \<lparr>ok = True, json_result = Inr demoStory\<rparr>))
             noCharacterWorld
           = noCharacterWorld\<lparr>error := Some m, trace := [SetError (Some m)]\<rparr>)"
proof -
  let ?h = "hostAnswering (Resolves \<lparr>ok = True, json_result = Inr demoStory\<rparr>)"
  have refused: "\<not> passesValidation noCharacterWorld"
    by (simp add: passesValidation_def noCharacterWorld_def)
  have "trace noCharacterWorld = []"
    by (simp add: noCharacterWorld_def)
  with refusal_only_sets_error [OF refused, of ?h]
  have "\<exists>m. handleGenerateStory ?h noCharacterWorld
             = noCharacterWorld\<lparr>error := Some m, trace := [SetError (Some m)]\<rparr>"
    by auto
  with refused show ?thesis by blast
qed

section \<open>Success\<close>

text \<open>
  Claim C4: when the response indicates success (\<^verbatim>\<open>response.ok\<close>) and its body parses,
  the parsed body is handed unchanged to the store's \<^verbatim>\<open>setStory\<close>, in the one store
  call of the invocation, so that the persisted story is exactly that body, and
  \<^verbatim>\<open>showStory\<close> becomes true.
\<close>

theorem success_persists_body:
  assumes "passesValidation w"
    and "fetch h (generateRequest w) = Resolves r"
    and "ok r"
    and "json_result r = Inr parsed"
  shows "story (handleGenerateStory h w) = Some parsed
         \<and> showStory (handleGenerateStory h w) = True
         \<and> trace (handleGenerateStory h w)
             = trace w @ [SetIsGenerating True, SetError None, Fetch (generateRequest w),
                          ConsoleLog parsed, StoreSetStory parsed, SetShowStory True,
                          SetIsGenerating False]"
  using handle_returned [OF assms(1) await_parsed_ok [OF assms(2,3,4)]] by simp

theorem success_persists_body_witness:
  "passesValidation demoWorld
   \<and> story (handleGenerateStory (hostAnswering (Resolves \<lparr>ok = True, json_result = Inr demoStory\<rparr>))
              demoWorld) = Some demoStory
   \<and> showStory (handleGenerateStory (hostAnswering (Resolves \<lparr>ok = True, json_result = Inr demoStory\<rparr>))
                  demoWorld)"
proof -
  let ?r = "\<lparr>ok = True, json_result = Inr demoStory\<rparr> :: int response"
  have valid: "passesValidation demoWorld"
    by (simp add: passesValidation_def activeTasks_def demoWorld_def demoSettings_def)
  have answer: "fetch (hostAnswering (Resolves ?r)) (generateRequest demoWorld) = Resolves ?r"
    by (simp add: hostAnswering_def)
  from success_persists_body [OF valid answer, of demoStory] valid
  show ?thesis by simp
qed

section \<open>Clearing\<close>

text \<open>
  Claim C8: \<^verbatim>\<open>handleClearStory\<close> calls the store's \<^verbatim>\<open>clearStory\<close>, which deletes the
  persisted story, then sets \<^verbatim>\<open>showStory\<close> to false, and does nothing else: the state
  it leaves differs from the one it started in only in the story, in \<^verbatim>\<open>showStory\<close> and
  in the record of these two calls; the error message and the loading flag are as
  before.
\<close>

theorem clear_frame:
  "handleClearStory w
     = w\<lparr>story := None, showStory := False,
         trace := trace w @ [StoreClearStory, SetShowStory False]\<rparr>
   \<and> story (handleClearStory w) = None
   \<and> showStory (handleClearStory w) = False
   \<and> error (handleClearStory w) = error w
   \<and> isGenerating (handleClearStory w) = isGenerating w"
  by (simp add: handleClearStory_def setter_defs)

section \<open>Failure\<close>

text \<open>
  Every failed attempt (\<^verbatim>\<open>fetch\<close> rejects, or the response is not \<^verbatim>\<open>ok\<close>, or
  parsing the body throws) leaves the persisted story as it was, does not call
  \<^verbatim>\<open>setStory\<close>, and stores the text of the raised value as the error.
\<close>

lemma failure_story_unchanged:
  assumes "passesValidation w"
    and "(\<exists>e. fetch h (generateRequest w) = Rejects e)
         \<or> (\<exists>r. fetch h (generateRequest w) = Resolves r \<and> (\<not> ok r \<or> isl (json_result r)))"
  shows "\<exists>e. awaitStory h (generateRequest w) = Inl e
             \<and> story (handleGenerateStory h w) = story w
             \<and> (\<forall>s. StoreSetStory s \<notin> set (drop (length (trace w)) (trace (handleGenerateStory h w))))
             \<and> error (handleGenerateStory h w) = Some (errorText e)"
proof -
  from await_failure_raises [OF assms(2)]
  obtain e where raised: "awaitStory h (generateRequest w) = Inl e" ..
  note step = handle_raised [OF assms(1) raised]
  have "story (handleGenerateStory h w) = story w"
    by (simp add: step)
  moreover have "\<forall>s. StoreSetStory s \<notin> set (drop (length (trace w)) (trace (handleGenerateStory h w)))"
    by (simp add: step)
  moreover have "error (handleGenerateStory h w) = Some (errorText e)"
    by (simp add: step)
  ultimately show ?thesis using raised by blast
qed

text \<open>
  Within the interface of the spec's section 6 the stored message is non-empty: when the
  value thrown by \<^verbatim>\<open>fetch\<close> or by the parser is not an \<^verbatim>\<open>Error\<close> or is one with a
  non-empty message, and when the failure response's body is an object whose \<^verbatim>\<open>error\<close>
  is a string or is missing.
\<close>

lemma failure_message_nonempty_in_contract:
  assumes "passesValidation w"
    and "(\<exists>e. (fetch h (generateRequest w) = Rejects e
               \<or> (\<exists>r. fetch h (generateRequest w) = Resolves r \<and> json_result r = Inl e))
              \<and> e \<noteq> ErrorInstance [])
         \<or> (\<exists>r kvs. fetch h (generateRequest w) = Resolves r \<and> \<not> ok r
                \<and> json_result r = Inr (JObj kvs)
                \<and> (map_of kvs ''error'' = None \<or> (\<exists>s. map_of kvs ''error'' = Some (JStr s))))"
  shows "story (handleGenerateStory h w) = story w
         \<and> (\<exists>m. error (handleGenerateStory h w) = Some m \<and> m \<noteq> [])"
proof -
  have "\<exists>e. awaitStory h (generateRequest w) = Inl e \<and> e \<noteq> ErrorInstance []"
    using assms(2)
  proof (elim disjE exE conjE)
    fix e
    assume "fetch h (generateRequest w) = Rejects e" and "e \<noteq> ErrorInstance []"
    then show ?thesis using await_rejected by blast
  next
    fix e r
    assume "fetch h (generateRequest w) = Resolves r" and "json_result r = Inl e"
      and "e \<noteq> ErrorInstance []"
    then show ?thesis using await_unparsed by blast
  next
    fix r kvs
    assume answer: "fetch h (generateRequest w) = Resolves r" "\<not> ok r"
      "json_result r = Inr (JObj kvs)"
      and absent: "map_of kvs ''error'' = None"
    have "getProp h (JObj kvs) ''error'' = Inr None"
      using absent by simp
    from await_no_embedded_text [OF answer this]
    show ?thesis by (simp add: genericFailure_def)
  next
    fix r kvs s
    assume answer: "fetch h (generateRequest w) = Resolves r" "\<not> ok r"
      "json_result r = Inr (JObj kvs)"
      and present: "map_of kvs ''error'' = Some (JStr s)"
    have read: "getProp h (JObj kvs) ''error'' = Inr (Some (JStr s))"
      using present by simp
    show ?thesis
    proof (cases "s = []")
      case True
      then have "Some (JStr s) = None \<or> (\<exists>v. Some (JStr s) = Some v \<and> \<not> truthy h v)"
        by simp
      from await_no_embedded_text [OF answer read this]
      show ?thesis by (simp add: genericFailure_def)
    next
      case False
      from await_embedded_text [OF answer read False] False
      show ?thesis by simp
    qed
  qed
  then obtain e where raised: "awaitStory h (generateRequest w) = Inl e"
    and texted: "e \<noteq> ErrorInstance []"
    by blast
  from texted errorText_nonempty [of e] have "errorText e \<noteq> []"
    by blast
  with handle_raised [OF assms(1) raised] show ?thesis by simp
qed

text \<open>
  Claim C2: for every generation attempt that fails the persisted story is unchanged and
  the stored error message is non-empty. The story is unchanged on every failure path,
  but the message can be empty. Evaluated here: the response is not \<^verbatim>\<open>ok\<close> and its
  body is \<^verbatim>\<open>{"error": []}\<close>. The array is truthy, so \<^verbatim>\<open>errorData.error || ...\<close> on
  line 48 does not take the fallback; \<^verbatim>\<open>new Error([])\<close> has the message \<^verbatim>\<open>""\<close>; the
  \<^verbatim>\<open>catch\<close> block stores it as it is, where line 48 falls back on an empty text. The
  stored error is the empty string, which \<^verbatim>\<open>{error && ...}\<close> does not render.
\<close>

theorem empty_array_error_stores_empty_message:
  "passesValidation demoWorld
   \<and> fetch (hostAnswering (Resolves \<lparr>ok = False, json_result = Inr (JObj [(''error'', JArr [])])\<rparr>))
        (generateRequest demoWorld)
       = Resolves \<lparr>ok = False, json_result = Inr (JObj [(''error'', JArr [])])\<rparr>
   \<and> story (handleGenerateStory
        (hostAnswering (Resolves \<lparr>ok = False, json_result = Inr (JObj [(''error'', JArr [])])\<rparr>))
        demoWorld) = story demoWorld
   \<and> error (handleGenerateStory
        (hostAnswering (Resolves \<lparr>ok = False, json_result = Inr (JObj [(''error'', JArr [])])\<rparr>))
        demoWorld) = Some []"
  by (simp add: handleGenerateStory_def passesValidation_def activeTasks_def tryBlock_def
      catchBlock_def awaitStory_def generateRequest_def setter_defs demo_defs Let_def)

theorem empty_array_error_stores_empty_message_witness:
  "error (handleGenerateStory
      (hostAnswering (Resolves \<lparr>ok = False, json_result = Inr (JObj [(''error'', JArr [])])\<rparr>))
      demoWorld) = Some []
   \<and> \<not> truthyText (error (handleGenerateStory
      (hostAnswering (Resolves \<lparr>ok = False, json_result = Inr (JObj [(''error'', JArr [])])\<rparr>))
      demoWorld))"
  using empty_array_error_stores_empty_message by simp

text \<open>
  Claim C6, as stated: for a thrown exception the stored message is the exception's
  description when available, otherwise the stringified exception. The \<^verbatim>\<open>catch\<close>
  block never converts the exception to a string: for a thrown value that is not
  an \<^verbatim>\<open>Error\<close>, here the string \<^verbatim>\<open>"boom"\<close>, it stores the generic fallback.
\<close>

theorem stringified_exception_counterexample:
  "passesValidation demoWorld
   \<and> fetch (hostAnswering (Rejects (NonError (JStr ''boom'')))) (generateRequest demoWorld)
       = Rejects (NonError (JStr ''boom''))
   \<and> error (handleGenerateStory (hostAnswering (Rejects (NonError (JStr ''boom'')))) demoWorld)
       = Some ''Failed to generate story''
   \<and> error (handleGenerateStory (hostAnswering (Rejects (NonError (JStr ''boom'')))) demoWorld)
       \<noteq> Some ''boom''"
  by (simp add: handleGenerateStory_def passesValidation_def activeTasks_def tryBlock_def
      catchBlock_def awaitStory_def generateRequest_def genericFailure_def setter_defs
      demo_defs Let_def)

text \<open>
  Claim C6, amended: for a failed generation attempt the stored error message is
  \<^item> the \<^verbatim>\<open>error\<close> string of the failure response's body when that string is present
    and non-empty;
  \<^item> the generic fallback "Failed to generate story" when the body has no \<^verbatim>\<open>error\<close>
    property or a falsy one;
  \<^item> for an exception thrown by \<^verbatim>\<open>fetch\<close> or by parsing the body, the exception's
    message when it is an \<^verbatim>\<open>Error\<close>, and the generic fallback otherwise.
\<close>

theorem error_message_derivation:
  assumes "passesValidation w"
  shows "(\<forall>r errorData s.
            fetch h (generateRequest w) = Resolves r \<and> \<not> ok r \<and> json_result r = Inr errorData
            \<and> getProp h errorData ''error'' = Inr (Some (JStr s)) \<and> s \<noteq> [] \<longrightarrow>
            error (handleGenerateStory h w) = Some s)
         \<and> (\<forall>r errorData p.
            fetch h (generateRequest w) = Resolves r \<and> \<not> ok r \<and> json_result r = Inr errorData
            \<and> getProp h errorData ''error'' = Inr p
            \<and> (p = None \<or> (\<exists>v. p = Some v \<and> \<not> truthy h v)) \<longrightarrow>
            error (handleGenerateStory h w) = Some ''Failed to generate story'')
         \<and> (\<forall>e. fetch h (generateRequest w) = Rejects e
                 \<or> (\<exists>r. fetch h (generateRequest w) = Resolves r \<and> json_result r = Inl e) \<longrightarrow>
            (\<forall>m. e = ErrorInstance m \<longrightarrow> error (handleGenerateStory h w) = Some m)
            \<and> (\<forall>v. e = NonError v \<longrightarrow>
                   error (handleGenerateStory h w) = Some ''Failed to generate story''))"
proof (intro conjI allI impI)
  fix r errorData s
  assume "fetch h (generateRequest w) = Resolves r \<and> \<not> ok r \<and> json_result r = Inr errorData
          \<and> getProp h errorData ''error'' = Inr (Some (JStr s)) \<and> s \<noteq> []"
  then have "awaitStory h (generateRequest w) = Inl (ErrorInstance s)"
    using await_embedded_text by blast
  from handle_raised [OF assms this]
  show "error (handleGenerateStory h w) = Some s" by simp
next
  fix r errorData p
  assume "fetch h (generateRequest w) = Resolves r \<and> \<not> ok r \<and> json_result r = Inr errorData
          \<and> getProp h errorData ''error'' = Inr p
          \<and> (p = None \<or> (\<exists>v. p = Some v \<and> \<not> truthy h v))"
  then have "awaitStory h (generateRequest w) = Inl (ErrorInstance genericFailure)"
    using await_no_embedded_text by blast
  from handle_raised [OF assms this]
  show "error (handleGenerateStory h w) = Some ''Failed to generate story''"
    by (simp add: genericFailure_def)
next
  fix e m
  assume "fetch h (generateRequest w) = Rejects e
          \<or> (\<exists>r. fetch h (generateRequest w) = Resolves r \<and> json_result r = Inl e)"
    and "e = ErrorInstance m"
  then have "awaitStory h (generateRequest w) = Inl (ErrorInstance m)"
    using await_rejected await_unparsed by blast
  from handle_raised [OF assms this]
  show "error (handleGenerateStory h w) = Some m" by simp
next
  fix e v
  assume "fetch h (generateRequest w) = Rejects e
          \<or> (\<exists>r. fetch h (generateRequest w) = Resolves r \<and> json_result r = Inl e)"
    and "e = NonError v"
  then have "awaitStory h (generateRequest w) = Inl (NonError v)"
    using await_rejected await_unparsed by blast
  from handle_raised [OF assms this]
  show "error (handleGenerateStory h w) = Some ''Failed to generate story''"
    by (simp add: genericFailure_def)
qed

theorem error_message_derivation_witness:
  "passesValidation demoWorld
   \<and> error (handleGenerateStory
        (hostAnswering (Resolves \<lparr>ok = False, json_result = Inr (JObj [(''error'', JStr ''rate limited'')])\<rparr>))
        demoWorld) = Some ''rate limited''
   \<and> error (handleGenerateStory
        (hostAnswering (Resolves \<lparr>ok = False, json_result = Inr (JObj [(''status'', JNum 500)])\<rparr>))
        demoWorld) = Some ''Failed to generate story''
   \<and> error (handleGenerateStory (hostAnswering (Rejects (ErrorInstance ''Failed to fetch''))) demoWorld)
       = Some ''Failed to fetch''
   \<and> error (handleGenerateStory (hostAnswering (Rejects (NonError JNull))) demoWorld)
       = Some ''Failed to generate story''"
proof -
  let ?limited = "\<lparr>ok = False, json_result = Inr (JObj [(''error'', JStr ''rate limited'')])\<rparr> :: int response"
  let ?bare = "\<lparr>ok = False, json_result = Inr (JObj [(''status'', JNum 500)])\<rparr> :: int response"
  have valid: "passesValidation demoWorld"
    by (simp add: passesValidation_def activeTasks_def demoWorld_def demoSettings_def)
  have "fetch (hostAnswering (Resolves ?limited)) (generateRequest demoWorld) = Resolves ?limited
        \<and> \<not> ok ?limited \<and> json_result ?limited = Inr (JObj [(''error'', JStr ''rate limited'')])
        \<and> getProp (hostAnswering (Resolves ?limited)) (JObj [(''error'', JStr ''rate limited'')]) ''error''
            = Inr (Some (JStr ''rate limited''))
        \<and> ''rate limited'' \<noteq> []"
    by (simp add: hostAnswering_def)
  with error_message_derivation [OF valid, of "hostAnswering (Resolves ?limited)"]
  have embedded: "error (handleGenerateStory (hostAnswering (Resolves ?limited)) demoWorld)
                  = Some ''rate limited''"
    by blast
  have "fetch (hostAnswering (Resolves ?bare)) (generateRequest demoWorld) = Resolves ?bare
        \<and> \<not> ok ?bare \<and> json_result ?bare = Inr (JObj [(''status'', JNum 500)])
        \<and> getProp (hostAnswering (Resolves ?bare)) (JObj [(''status'', JNum 500)]) ''error'' = Inr None
        \<and> ((None :: int json option) = None \<or> (\<exists>v. None = Some v \<and> \<not> truthy (hostAnswering (Resolves ?bare)) v))"
    by (simp add: hostAnswering_def)
  with error_message_derivation [OF valid, of "hostAnswering (Resolves ?bare)"]
  have fallback: "error (handleGenerateStory (hostAnswering (Resolves ?bare)) demoWorld)
                  = Some ''Failed to generate story''"
    by blast
  have "fetch (hostAnswering (Rejects (ErrorInstance ''Failed to fetch''))) (generateRequest demoWorld)
        = Rejects (ErrorInstance ''Failed to fetch'')"
    by (simp add: hostAnswering_def)
  with error_message_derivation [OF valid, of "hostAnswering (Rejects (ErrorInstance ''Failed to fetch''))"]
  have described: "error (handleGenerateStory (hostAnswering (Rejects (ErrorInstance ''Failed to fetch''))) demoWorld)
                   = Some ''Failed to fetch''"
    by blast
  have "fetch (hostAnswering (Rejects (NonError JNull))) (generateRequest demoWorld)
        = Rejects (NonError JNull)"
    by (simp add: hostAnswering_def)
  with error_message_derivation [OF valid, of "hostAnswering (Rejects (NonError JNull))"]
  have other: "error (handleGenerateStory (hostAnswering (Rejects (NonError JNull))) demoWorld)
               = Some ''Failed to generate story''"
    by blast
  from valid embedded fallback described other show ?thesis by blast
qed

text \<open>
  Claim C9: when the body of a failure response has an \<^verbatim>\<open>error\<close> property whose value
  is the empty string, the stored message is the generic fallback "Failed to generate
  story": \<^verbatim>\<open>errorData.error || ...\<close> tests the truthiness of the property, not whether
  the key exists.
\<close>

theorem empty_embedded_error_falls_back:
  assumes "passesValidation w"
    and "fetch h (generateRequest w) = Resolves r"
    and "\<not> ok r"
    and "json_result r = Inr (JObj kvs)"
    and "map_of kvs ''error'' = Some (JStr [])"
  shows "error (handleGenerateStory h w) = Some ''Failed to generate story''"
proof -
  have read: "getProp h (JObj kvs) ''error'' = Inr (Some (JStr []))"
    using assms(5) by simp
  have falsy: "Some (JStr []) = None \<or> (\<exists>v. Some (JStr []) = Some v \<and> \<not> truthy h v)"
    by simp
  from handle_raised [OF assms(1) await_no_embedded_text [OF assms(2,3,4) read falsy]]
  show ?thesis by (simp add: genericFailure_def)
qed

theorem empty_embedded_error_falls_back_witness:
  "passesValidation demoWorld
   \<and> map_of [(''error'', JStr []), (''code'', JNum (429 :: int))] ''error'' = Some (JStr [])
   \<and> error (handleGenerateStory
        (hostAnswering (Resolves \<lparr>ok = False,
           json_result = Inr (JObj [(''error'', JStr []), (''code'', JNum 429)])\<rparr>))
        demoWorld) = Some ''Failed to generate story''"
proof -
  let ?r = "\<lparr>ok = False, json_result = Inr (JObj [(''error'', JStr []), (''code'', JNum 429)])\<rparr> :: int response"
  have valid: "passesValidation demoWorld"
    by (simp add: passesValidation_def activeTasks_def demoWorld_def demoSettings_def)
  have answer: "fetch (hostAnswering (Resolves ?r)) (generateRequest demoWorld) = Resolves ?r"
    by (simp add: hostAnswering_def)
  have present: "map_of [(''error'', JStr []), (''code'', JNum (429 :: int))] ''error'' = Some (JStr [])"
    by simp
  have "error (handleGenerateStory (hostAnswering (Resolves ?r)) demoWorld)
        = Some ''Failed to generate story''"
    by (rule empty_embedded_error_falls_back [OF valid answer _ _ present]) simp_all
  with valid present show ?thesis by blast
qed

text \<open>
  Claim C10: when the response is not \<^verbatim>\<open>ok\<close> and its body is not valid JSON,
  \<^verbatim>\<open>response.json()\<close> throws (a \<^verbatim>\<open>SyntaxError\<close>, an \<^verbatim>\<open>Error\<close>) before the error with
  the generic fallback is constructed: the exception that reaches the \<^verbatim>\<open>catch\<close> block
  is the parse exception, and its message becomes the error message; the persisted story
  is unchanged and the loading flag is cleared.
\<close>

theorem unparsable_failure_body:
  assumes "passesValidation w"
    and "fetch h (generateRequest w) = Resolves r"
    and "\<not> ok r"
    and "json_result r = Inl (ErrorInstance m)"
  shows "awaitStory h (generateRequest w) = Inl (ErrorInstance m)
         \<and> error (handleGenerateStory h w) = Some m
         \<and> story (handleGenerateStory h w) = story w
         \<and> isGenerating (handleGenerateStory h w) = False
         \<and> trace (handleGenerateStory h w)
             = trace w @ [SetIsGenerating True, SetError None, Fetch (generateRequest w),
                          ConsoleError (ErrorInstance m), SetError (Some m), SetIsGenerating False]"
proof -
  have raised: "awaitStory h (generateRequest w) = Inl (ErrorInstance m)"
    by (rule await_unparsed [OF assms(2,4)])
  from handle_raised [OF assms(1) raised] raised show ?thesis by simp
qed

theorem unparsable_failure_body_witness:
  "passesValidation demoWorld
   \<and> error (handleGenerateStory
        (hostAnswering (Resolves \<lparr>ok = False, json_result = Inl (ErrorInstance ''Unexpected token <'')\<rparr>))
        demoWorld) = Some ''Unexpected token <''
   \<and> story (handleGenerateStory
        (hostAnswering (Resolves \<lparr>ok = False, json_result = Inl (ErrorInstance ''Unexpected token <'')\<rparr>))
        demoWorld) = story demoWorld
   \<and> isGenerating (handleGenerateStory
        (hostAnswering (Resolves \<lparr>ok = False, json_result = Inl (ErrorInstance ''Unexpected token <'')\<rparr>))
        demoWorld) = False"
proof -
  let ?r = "\<lparr>ok = False, json_result = Inl (ErrorInstance ''Unexpected token <'')\<rparr> :: int response"
  have valid: "passesValidation demoWorld"
    by (simp add: passesValidation_def activeTasks_def demoWorld_def demoSettings_def)
  have answer: "fetch (hostAnswering (Resolves ?r)) (generateRequest demoWorld) = Resolves ?r"
    by (simp add: hostAnswering_def)
  have "\<not> ok ?r" and "json_result ?r = Inl (ErrorInstance ''Unexpected token <'')"
    by simp_all
  from unparsable_failure_body [OF valid answer this] valid show ?thesis by blast
qed

section \<open>The loading flag\<close>

text \<open>
  Claim C3: in every invocation that passes validation, \<^verbatim>\<open>setIsGenerating(true)\<close> is the
  first effect, before the request is issued, and \<^verbatim>\<open>setIsGenerating(false)\<close> is the
  last, after everything that follows the settled request, whether the attempt succeeds,
  gets a failure response or throws; nothing in between writes the flag or issues another
  request. So the flag is false when the handler is done, and, replayed along the
  effects of the invocation, it has its previous value before the first effect, is true
  from then until the last effect, and is false after it.
\<close>

theorem loading_flag_brackets_request:
  assumes "passesValidation w"
  shows "\<exists>mid. trace (handleGenerateStory h w)
                 = trace w @ SetIsGenerating True # SetError None # Fetch (generateRequest w)
                             # mid @ [SetIsGenerating False]
               \<and> (\<forall>e \<in> set mid. (\<forall>b. e \<noteq> SetIsGenerating b) \<and> (\<forall>r. e \<noteq> Fetch r))
               \<and> isGenerating (handleGenerateStory h w) = False
               \<and> (\<forall>k. flagAfter (isGenerating w)
                          (take k (drop (length (trace w)) (trace (handleGenerateStory h w))))
                        = (if k = 0 then isGenerating w else k < length mid + 4))"
proof -
  define mid :: "('a, 'b, 'c) effect list" where
    "mid = (case awaitStory h (generateRequest w) of
              Inl e \<Rightarrow> [ConsoleError e, SetError (Some (errorText e))]
            | Inr s \<Rightarrow> [ConsoleLog s, StoreSetStory s, SetShowStory True])"
  have both: "trace (handleGenerateStory h w)
                 = trace w @ SetIsGenerating True # SetError None # Fetch (generateRequest w)
                             # mid @ [SetIsGenerating False]
              \<and> isGenerating (handleGenerateStory h w) = False"
  proof (cases "awaitStory h (generateRequest w)")
    case (Inl e)
    from handle_raised [OF assms Inl] Inl show ?thesis
      by (simp add: mid_def)
  next
    case (Inr s)
    from handle_returned [OF assms Inr] Inr show ?thesis
      by (simp add: mid_def)
  qed
  then have shape: "trace (handleGenerateStory h w)
                 = trace w @ SetIsGenerating True # SetError None # Fetch (generateRequest w)
                             # mid @ [SetIsGenerating False]"
    and cleared: "isGenerating (handleGenerateStory h w) = False"
    by simp_all
  have quiet: "\<forall>e \<in> set mid. (\<forall>b. e \<noteq> SetIsGenerating b) \<and> (\<forall>r. e \<noteq> Fetch r)"
    by (cases "awaitStory h (generateRequest w)") (simp_all add: mid_def)
  then have inner: "\<forall>e \<in> set (SetError None # Fetch (generateRequest w) # mid).
                      \<forall>c. e \<noteq> SetIsGenerating c"
    by simp
  have replay: "flagAfter (isGenerating w)
                  (take k (drop (length (trace w)) (trace (handleGenerateStory h w))))
                = (if k = 0 then isGenerating w else k < length mid + 4)" for k
  proof -
    have "drop (length (trace w)) (trace (handleGenerateStory h w))
          = SetIsGenerating True # (SetError None # Fetch (generateRequest w) # mid)
            @ [SetIsGenerating False]"
      by (simp add: shape)
    moreover have "length (SetError None # Fetch (generateRequest w) # mid) + 2 = length mid + 4"
      by simp
    ultimately show ?thesis
      using flagAfter_bracket [OF inner, of "isGenerating w" k] by (simp only:)
  qed
  from shape quiet cleared replay show ?thesis by blast
qed

theorem loading_flag_brackets_request_witness:
  "passesValidation demoWorld
   \<and> (\<exists>mid. trace (handleGenerateStory (hostAnswering (Rejects (ErrorInstance ''Failed to fetch'')))
                     demoWorld)
              = trace demoWorld @ SetIsGenerating True # SetError None
                  # Fetch (generateRequest demoWorld) # mid @ [SetIsGenerating False])
   \<and> isGenerating (handleGenerateStory (hostAnswering (Rejects (ErrorInstance ''Failed to fetch'')))
                     demoWorld) = False"
proof -
  have valid: "passesValidation demoWorld"
    by (simp add: passesValidation_def activeTasks_def demoWorld_def demoSettings_def)
  from loading_flag_brackets_request
         [OF valid, of "hostAnswering (Rejects (ErrorInstance ''Failed to fetch''))"] valid
  show ?thesis by blast
qed

section \<open>Eligible tasks and the request\<close>

text \<open>
  Claim C7: the eligible count is the number of entries of the task collection whose
  status is "active"; the eligible list has exactly those entries, in the order of the
  collection (it is the collection restricted to the positions of the active entries).
  A validated invocation issues one request, to \<^verbatim>\<open>/api/generate\<close> by POST, whose
  body carries that list as \<^verbatim>\<open>tasks\<close>, the settings object as \<^verbatim>\<open>settings\<close> and the
  selected model as \<^verbatim>\<open>model\<close>.
\<close>

theorem active_tasks_in_request:
  "length (activeTasks ts) = card {i. i < length ts \<and> status (ts ! i) = ''active''}
   \<and> activeTasks ts = nths ts {i. i < length ts \<and> status (ts ! i) = ''active''}
   \<and> set (activeTasks ts) = {t \<in> set ts. status t = ''active''}
   \<and> subseq (activeTasks ts) ts
   \<and> (passesValidation w \<longrightarrow>
        (\<exists>before after.
           drop (length (trace w)) (trace (handleGenerateStory h w))
             = before @ Fetch \<lparr>url = ''/api/generate'', http_method = ''POST'',
                                headers = [(''Content-Type'', ''application/json'')],
                                body = \<lparr>body_tasks = activeTasks (tasks w),
                                         body_settings = settings w,
                                         body_model = aiModel w\<rparr>\<rparr> # after
           \<and> (\<forall>r. Fetch r \<notin> set before) \<and> (\<forall>r. Fetch r \<notin> set after)))"
proof -
  have count: "length (activeTasks ts) = card {i. i < length ts \<and> status (ts ! i) = ''active''}"
    unfolding activeTasks_def by (rule length_filter_conv_card)
  have positions: "activeTasks ts = nths ts {i. i < length ts \<and> status (ts ! i) = ''active''}"
    unfolding activeTasks_def by (rule filter_eq_nths)
  have members: "set (activeTasks ts) = {t \<in> set ts. status t = ''active''}"
    by (simp add: activeTasks_def)
  have order: "subseq (activeTasks ts) ts"
    by (simp add: activeTasks_def)
  have sent: "\<exists>before after.
           drop (length (trace w)) (trace (handleGenerateStory h w))
             = before @ Fetch (generateRequest w) # after
           \<and> (\<forall>r. Fetch r \<notin> set before) \<and> (\<forall>r. Fetch r \<notin> set after)"
    if valid: "passesValidation w"
  proof (cases "awaitStory h (generateRequest w)")
    case (Inl e)
    have "drop (length (trace w)) (trace (handleGenerateStory h w))
            = [SetIsGenerating True, SetError None] @ Fetch (generateRequest w)
              # [ConsoleError e, SetError (Some (errorText e)), SetIsGenerating False]
          \<and> (\<forall>r. Fetch r \<notin> set [SetIsGenerating True, SetError None])
          \<and> (\<forall>r. Fetch r \<notin> set [ConsoleError e, SetError (Some (errorText e)), SetIsGenerating False])"
      by (simp add: handle_raised [OF valid Inl])
    then show ?thesis by blast
  next
    case (Inr s)
    have "drop (length (trace w)) (trace (handleGenerateStory h w))
            = [SetIsGenerating True, SetError None] @ Fetch (generateRequest w)
              # [ConsoleLog s, StoreSetStory s, SetShowStory True, SetIsGenerating False]
          \<and> (\<forall>r. Fetch r \<notin> set [SetIsGenerating True, SetError None])
          \<and> (\<forall>r. Fetch r \<notin> set [ConsoleLog s, StoreSetStory s, SetShowStory True, SetIsGenerating False])"
      by (simp add: handle_returned [OF valid Inr])
    then show ?thesis by blast
  qed
  from count positions members order sent show ?thesis
    unfolding generateRequest_def by blast
qed

theorem active_tasks_in_request_witness:
  "passesValidation demoWorld
   \<and> card {i. i < length (tasks demoWorld) \<and> status (tasks demoWorld ! i) = ''active''} = 2
   \<and> (\<exists>before after.
        trace (handleGenerateStory (hostAnswering (Resolves \<lparr>ok = True, json_result = Inr demoStory\<rparr>))
                 demoWorld)
          = before @ Fetch \<lparr>url = ''/api/generate'', http_method = ''POST'',
                             headers = [(''Content-Type'', ''application/json'')],
                             body = \<lparr>body_tasks = [\<lparr>status = ''active''\<rparr>, \<lparr>status = ''active''\<rparr>],
                                      body_settings = demoSettings,
                                      body_model = ''gpt-4''\<rparr>\<rparr> # after)"
proof -
  let ?h = "hostAnswering (Resolves \<lparr>ok = True, json_result = Inr demoStory\<rparr>)"
  have valid: "passesValidation demoWorld"
    by (simp add: passesValidation_def activeTasks_def demoWorld_def demoSettings_def)
  have two: "activeTasks (tasks demoWorld) = [\<lparr>status = ''active''\<rparr>, \<lparr>status = ''active''\<rparr>]"
    by (simp add: activeTasks_def demoWorld_def)
  have fields: "settings demoWorld = demoSettings" "aiModel demoWorld = ''gpt-4''"
    "trace demoWorld = []"
    by (simp_all add: demoWorld_def)
  note fact = active_tasks_in_request [of "tasks demoWorld" demoWorld ?h]
  from fact two have "card {i. i < length (tasks demoWorld) \<and> status (tasks demoWorld ! i) = ''active''} = 2"
    by simp
  moreover from fact valid
  have "\<exists>before after.
          drop (length (trace demoWorld)) (trace (handleGenerateStory ?h demoWorld))
            = before @ Fetch \<lparr>url = ''/api/generate'', http_method = ''POST'',
                               headers = [(''Content-Type'', ''application/json'')],
                               body = \<lparr>body_tasks = activeTasks (tasks demoWorld),
                                        body_settings = settings demoWorld,
                                        body_model = aiModel demoWorld\<rparr>\<rparr> # after"
    by blast
  then have "\<exists>before after.
          trace (handleGenerateStory ?h demoWorld)
            = before @ Fetch \<lparr>url = ''/api/generate'', http_method = ''POST'',
                               headers = [(''Content-Type'', ''application/json'')],
                               body = \<lparr>body_tasks = [\<lparr>status = ''active''\<rparr>, \<lparr>status = ''active''\<rparr>],
                                        body_settings = demoSettings,
                                        body_model = ''gpt-4''\<rparr>\<rparr> # after"
    by (simp add: two fields)
  ultimately show ?thesis using valid by blast
qed


end
